theory Spec2Isabelle
  imports Main
begin

section \<open>Upload metadata store (tuspyserver/info.py)\<close>

text \<open>
  A shallow embedding of class \<open>TusUploadInfo\<close>. The object's fields are a record that
  every method takes and returns; the filesystem, the logger and the trace of filesystem
  calls are a second record, the world. A method that raises returns \<open>Inl\<close> of the
  exception class together with the object and the world as the raise left them, since
  Python keeps the assignments made before the raise.
\<close>

subsection \<open>Exception classes\<close>

text \<open>
  The classes the handlers of the source name, and some that the calls inside the
  \<open>try\<close> blocks can raise besides. \<open>IOError\<close> is an alias of \<open>OSError\<close>;
  \<open>FileNotFoundError\<close> and \<open>PermissionError\<close> are subclasses of \<open>OSError\<close>;
  \<open>json.JSONDecodeError\<close> and \<open>UnicodeDecodeError\<close> are subclasses of \<open>ValueError\<close>.
  All of them are subclasses of \<open>Exception\<close>.
\<close>

datatype exn =
    OSError | FileNotFoundError | PermissionError
  | ValueError | JSONDecodeError | UnicodeDecodeError
  | TypeError | KeyError | AttributeError | RecursionError

fun is_OSError :: "exn \<Rightarrow> bool" where
  "is_OSError OSError = True"
| "is_OSError FileNotFoundError = True"
| "is_OSError PermissionError = True"
| "is_OSError _ = False"

fun is_ValueError :: "exn \<Rightarrow> bool" where
  "is_ValueError ValueError = True"
| "is_ValueError JSONDecodeError = True"
| "is_ValueError UnicodeDecodeError = True"
| "is_ValueError _ = False"

subsection \<open>The world: files, log records, filesystem calls\<close>

type_synonym path = string

datatype level = DEBUG | WARNING | ERROR

datatype fs_call =
    Exists path | OpenRead path | ReadAll path
  | OpenWrite path | WriteText path | Flush path | Fsync path
  | Rename path path | Remove path

text \<open>
  A log record is the level, the message up to the interpolated exception, and the
  exception interpolated at its end, if any.
\<close>

record world =
  files :: "path \<rightharpoonup> string"
  logged :: "(level \<times> string \<times> exn option) list"
  calls :: "fs_call list"

type_synonym 'a io = "world \<Rightarrow> (exn + 'a) \<times> world"

definition and_then :: "'a io \<Rightarrow> ('a \<Rightarrow> 'b io) \<Rightarrow> 'b io" where
  "and_then m k w = (case m w of (Inl e, w') \<Rightarrow> (Inl e, w') | (Inr x, w') \<Rightarrow> k x w')"

definition traced :: "fs_call \<Rightarrow> world \<Rightarrow> world" where
  "traced c w = w\<lparr>calls := calls w @ [c]\<rparr>"

definition logger :: "level \<Rightarrow> string \<Rightarrow> exn option \<Rightarrow> world \<Rightarrow> world" where
  "logger lvl msg e w = w\<lparr>logged := logged w @ [(lvl, msg, e)]\<rparr>"

subsection \<open>Filesystem calls\<close>

text \<open>
  Whether a call fails is not decided by the program: each call takes its fault, the
  exception it raises if it fails. A failed write leaves the first \<open>n\<close> characters in
  the file.
\<close>

text \<open>\<open>os.path.exists\<close>: never raises.\<close>

definition os_path_exists :: "path \<Rightarrow> world \<Rightarrow> bool \<times> world" where
  "os_path_exists p w = (files w p \<noteq> None, traced (Exists p) w)"

text \<open>\<open>open(p, "w")\<close>: creates the file or truncates it.\<close>

definition open_w :: "exn option \<Rightarrow> path \<Rightarrow> unit io" where
  "open_w flt p w =
     (case flt of
        Some e \<Rightarrow> (Inl e, traced (OpenWrite p) w)
      | None \<Rightarrow> (Inr (), traced (OpenWrite p) (w\<lparr>files := (files w)(p \<mapsto> [])\<rparr>)))"

definition f_write :: "(exn \<times> nat) option \<Rightarrow> path \<Rightarrow> string \<Rightarrow> unit io" where
  "f_write flt p s w =
     (case flt of
        Some (e, n) \<Rightarrow> (Inl e, traced (WriteText p) (w\<lparr>files := (files w)(p \<mapsto> take n s)\<rparr>))
      | None \<Rightarrow> (Inr (), traced (WriteText p) (w\<lparr>files := (files w)(p \<mapsto> s)\<rparr>)))"

definition f_flush :: "exn option \<Rightarrow> path \<Rightarrow> unit io" where
  "f_flush flt p w =
     (case flt of
        Some e \<Rightarrow> (Inl e, traced (Flush p) w)
      | None \<Rightarrow> (Inr (), traced (Flush p) w))"

definition os_fsync :: "exn option \<Rightarrow> path \<Rightarrow> unit io" where
  "os_fsync flt p w =
     (case flt of
        Some e \<Rightarrow> (Inl e, traced (Fsync p) w)
      | None \<Rightarrow> (Inr (), traced (Fsync p) w))"

text \<open>\<open>os.rename(src, dst)\<close>: replaces \<open>dst\<close> in one step, or changes nothing.\<close>

definition os_rename :: "exn option \<Rightarrow> path \<Rightarrow> path \<Rightarrow> unit io" where
  "os_rename flt src dst w =
     (case flt of
        Some e \<Rightarrow> (Inl e, traced (Rename src dst) w)
      | None \<Rightarrow>
          (case files w src of
             None \<Rightarrow> (Inl FileNotFoundError, traced (Rename src dst) w)
           | Some c \<Rightarrow>
               (Inr (), traced (Rename src dst) (w\<lparr>files := ((files w)(src := None))(dst \<mapsto> c)\<rparr>))))"

definition os_remove :: "exn option \<Rightarrow> path \<Rightarrow> unit io" where
  "os_remove flt p w =
     (case flt of
        Some e \<Rightarrow> (Inl e, traced (Remove p) w)
      | None \<Rightarrow>
          (case files w p of
             None \<Rightarrow> (Inl FileNotFoundError, traced (Remove p) w)
           | Some c \<Rightarrow> (Inr (), traced (Remove p) (w\<lparr>files := (files w)(p := None)\<rparr>))))"

text \<open>\<open>open(p, "r")\<close> gives the file object, here the content it will read.\<close>

definition open_r :: "exn option \<Rightarrow> path \<Rightarrow> string io" where
  "open_r flt p w =
     (case flt of
        Some e \<Rightarrow> (Inl e, traced (OpenRead p) w)
      | None \<Rightarrow>
          (case files w p of
             None \<Rightarrow> (Inl FileNotFoundError, traced (OpenRead p) w)
           | Some c \<Rightarrow> (Inr c, traced (OpenRead p) w)))"

definition f_read :: "exn option \<Rightarrow> path \<Rightarrow> string \<Rightarrow> string io" where
  "f_read flt p h w =
     (case flt of
        Some e \<Rightarrow> (Inl e, traced (ReadAll p) w)
      | None \<Rightarrow> (Inr h, traced (ReadAll p) w))"

text \<open>
  The calls of \<open>aiofiles\<close> run the blocking call of the same name on a worker thread
  and hand its result, or its exception, to the awaiting task.
\<close>

definition aiofiles_open_w :: "exn option \<Rightarrow> path \<Rightarrow> unit io" where
  "aiofiles_open_w flt p = open_w flt p"

definition aiofiles_open_r :: "exn option \<Rightarrow> path \<Rightarrow> string io" where
  "aiofiles_open_r flt p = open_r flt p"

definition aiofiles_os_rename :: "exn option \<Rightarrow> path \<Rightarrow> path \<Rightarrow> unit io" where
  "aiofiles_os_rename flt src dst = os_rename flt src dst"

definition aiofiles_os_remove :: "exn option \<Rightarrow> path \<Rightarrow> unit io" where
  "aiofiles_os_remove flt p = os_remove flt p"

record write_faults =
  open_f :: "exn option"
  write_f :: "(exn \<times> nat) option"
  flush_f :: "exn option"
  fsync_f :: "exn option"
  rename_f :: "exn option"
  remove_f :: "exn option"

record read_faults =
  ropen_f :: "exn option"
  read_f :: "exn option"

definition no_write_faults :: write_faults where
  "no_write_faults =
     \<lparr>open_f = None, write_f = None, flush_f = None, fsync_f = None, rename_f = None,
      remove_f = None\<rparr>"

definition no_read_faults :: read_faults where
  "no_read_faults = \<lparr>ropen_f = None, read_f = None\<rparr>"

subsection \<open>Strings and paths\<close>

text \<open>
  A character of the model is a code point below 256. \<open>str.strip()\<close> removes the
  whitespace of Python's \<open>str.isspace\<close> at both ends; below code point 256 that is 9 to
  13, 28 to 32, 133 and 160.
\<close>

definition is_whitespace :: "char \<Rightarrow> bool" where
  "is_whitespace c = ((of_char c :: nat) \<in> {9, 10, 11, 12, 13, 28, 29, 30, 31, 32, 133, 160})"

definition py_strip :: "string \<Rightarrow> string" where
  "py_strip s = rev (dropWhile is_whitespace (rev (dropWhile is_whitespace s)))"

text \<open>\<open>os.path.join(a, b)\<close> of \<open>posixpath\<close>, for two arguments.\<close>

definition os_path_join :: "path \<Rightarrow> path \<Rightarrow> path" where
  "os_path_join a b =
     (if b \<noteq> [] \<and> hd b = CHR ''/'' then b
      else if a = [] \<or> last a = CHR ''/'' then a @ b
      else a @ ''/'' @ b)"

subsection \<open>The parts of the program outside this file\<close>

text \<open>
  The record class \<open>TusUploadParams\<close> (module \<open>tuspyserver.params\<close>) and the \<open>json\<close>
  module are not part of this file; they are parameters of the model:
  \<^item> \<open>json_dumps v\<close> is \<open>json.dumps(v, indent=4, default=lambda k: k.__dict__)\<close>;
  \<^item> \<open>json_loads s\<close> is \<open>json.loads(s)\<close>;
  \<^item> \<open>truthy j\<close> is the truth value of the parsed value \<open>j\<close> (\<open>if json_dict:\<close>);
  \<^item> \<open>TusUploadParams j\<close> is \<open>TusUploadParams(**j)\<close>;
  \<^item> \<open>params_truthy p\<close> is the truth value of the record \<open>p\<close> (\<open>if params\<close>).
\<close>

record ('p, 'j) codec =
  json_dumps :: "'p option \<Rightarrow> exn + string"
  json_loads :: "string \<Rightarrow> exn + 'j"
  truthy :: "'j \<Rightarrow> bool"
  TusUploadParams :: "'j \<Rightarrow> exn + 'p"
  params_truthy :: "'p \<Rightarrow> bool"

subsection \<open>The object\<close>

record tus_upload_file =
  files_dir :: string
  uid :: string

record 'p tus_upload_info =
  upload_file :: tus_upload_file
  params :: "'p option"
  loaded :: bool

definition path :: "'p tus_upload_info \<Rightarrow> path" where
  "path s = os_path_join (files_dir (upload_file s)) (uid (upload_file s) @ ''.info'')"

definition exists :: "'p tus_upload_info \<Rightarrow> world \<Rightarrow> bool \<times> world" where
  "exists s w = os_path_exists (path s) w"

subsection \<open>Writing: \<open>_serialize_sync\<close> and \<open>serialize\<close>\<close>

text \<open>
  The cleanup of both handlers: remove the temp file if it is there; an exception of the
  cleanup is logged at warning level and dropped (\<open>except Exception\<close>).
\<close>

definition cleanup_temp :: "exn option \<Rightarrow> path \<Rightarrow> world \<Rightarrow> world" where
  "cleanup_temp flt temp_path w =
     (case os_path_exists temp_path w of
        (ex, w0) \<Rightarrow>
          if ex then
            (case os_remove flt temp_path w0 of
               (Inl cleanup_err, w1) \<Rightarrow>
                 logger WARNING (''Failed to cleanup temp file '' @ temp_path) (Some cleanup_err) w1
             | (Inr u, w1) \<Rightarrow> w1)
          else w0)"

text \<open>
  The body of the \<open>try\<close>: the \<open>with\<close> block, then the rename. Closing the file at
  the end of the \<open>with\<close> block is taken to succeed.
\<close>

definition write_body ::
    "('p, 'j) codec \<Rightarrow> write_faults \<Rightarrow> path \<Rightarrow> path \<Rightarrow> 'p option \<Rightarrow> unit io" where
  "write_body cd wfl temp_path p v =
     and_then (open_w (open_f wfl) temp_path) (\<lambda>f.
     and_then (\<lambda>w. (json_dumps cd v, w)) (\<lambda>json_string.
     and_then (f_write (write_f wfl) temp_path json_string) (\<lambda>u1.
     and_then (f_flush (flush_f wfl) temp_path) (\<lambda>u2.
     and_then (os_fsync (fsync_f wfl) temp_path) (\<lambda>u3.
     os_rename (rename_f wfl) temp_path p)))))"

definition serialize_sync ::
    "('p, 'j) codec \<Rightarrow> write_faults \<Rightarrow> 'p tus_upload_info \<Rightarrow> unit io" where
  "serialize_sync cd wfl s w =
     (let temp_path = path s @ ''.tmp'' in
      case write_body cd wfl temp_path (path s) (params s) w of
        (Inr u, w1) \<Rightarrow> (Inr (), w1)
      | (Inl err, w1) \<Rightarrow>
          if is_OSError err then
            (Inl err,
             cleanup_temp (remove_f wfl) temp_path
               (logger ERROR (''I/O error serializing upload info to '' @ path s) (Some err) w1))
          else if err = TypeError \<or> is_ValueError err then
            (Inl err,
             cleanup_temp (remove_f wfl) temp_path
               (logger ERROR (''JSON serialization error for '' @ path s) (Some err) w1))
          else (Inl err, w1))"

definition aio_cleanup_temp :: "exn option \<Rightarrow> path \<Rightarrow> world \<Rightarrow> world" where
  "aio_cleanup_temp flt temp_path w =
     (case os_path_exists temp_path w of
        (ex, w0) \<Rightarrow>
          if ex then
            (case aiofiles_os_remove flt temp_path w0 of
               (Inl cleanup_err, w1) \<Rightarrow>
                 logger WARNING (''Failed to cleanup temp file '' @ temp_path) (Some cleanup_err) w1
             | (Inr u, w1) \<Rightarrow> w1)
          else w0)"

definition aio_write_body ::
    "('p, 'j) codec \<Rightarrow> write_faults \<Rightarrow> path \<Rightarrow> path \<Rightarrow> 'p option \<Rightarrow> unit io" where
  "aio_write_body cd wfl temp_path p v =
     and_then (aiofiles_open_w (open_f wfl) temp_path) (\<lambda>f.
     and_then (\<lambda>w. (json_dumps cd v, w)) (\<lambda>json_string.
     and_then (f_write (write_f wfl) temp_path json_string) (\<lambda>u1.
     and_then (f_flush (flush_f wfl) temp_path) (\<lambda>u2.
     and_then (os_fsync (fsync_f wfl) temp_path) (\<lambda>u3.
     aiofiles_os_rename (rename_f wfl) temp_path p)))))"

definition serialize ::
    "('p, 'j) codec \<Rightarrow> write_faults \<Rightarrow> 'p tus_upload_info \<Rightarrow> unit io" where
  "serialize cd wfl s w =
     (let temp_path = path s @ ''.tmp'' in
      case aio_write_body cd wfl temp_path (path s) (params s) w of
        (Inr u, w1) \<Rightarrow> (Inr (), w1)
      | (Inl err, w1) \<Rightarrow>
          if is_OSError err then
            (Inl err,
             aio_cleanup_temp (remove_f wfl) temp_path
               (logger ERROR (''I/O error serializing upload info to '' @ path s) (Some err) w1))
          else if err = TypeError \<or> is_ValueError err then
            (Inl err,
             aio_cleanup_temp (remove_f wfl) temp_path
               (logger ERROR (''JSON serialization error for '' @ path s) (Some err) w1))
          else (Inl err, w1))"

subsection \<open>Reading: \<open>_deserialize_sync\<close> and \<open>deserialize\<close>\<close>

text \<open>
  The body of the \<open>try\<close> ends in one of two ways when it does not raise: by the
  \<open>return None\<close> of the empty file, which assigns nothing, or by an assignment to
  \<open>self._params\<close>.
\<close>

datatype 'p body_result = Returned_None | Assigned "'p option"

definition parse_content :: "('p, 'j) codec \<Rightarrow> path \<Rightarrow> string \<Rightarrow> 'p body_result io" where
  "parse_content cd p content w =
     (if content = [] then
        (Inr Returned_None, logger WARNING (''Upload info file '' @ p @ '' is empty'') None w)
      else
        (case json_loads cd content of
           Inl e \<Rightarrow> (Inl e, w)
         | Inr json_dict \<Rightarrow>
             if truthy cd json_dict then
               (case TusUploadParams cd json_dict of
                  Inl e \<Rightarrow> (Inl e, w)
                | Inr r \<Rightarrow> (Inr (Assigned (Some r)), w))
             else (Inr (Assigned None), w)))"

definition read_body :: "('p, 'j) codec \<Rightarrow> read_faults \<Rightarrow> path \<Rightarrow> 'p body_result io" where
  "read_body cd rfl p =
     and_then (open_r (ropen_f rfl) p) (\<lambda>f.
     and_then (f_read (read_f rfl) p f) (\<lambda>raw.
     parse_content cd p (py_strip raw)))"

type_synonym ('p, 'a) outcome = "(exn + 'a) \<times> 'p tus_upload_info \<times> world"

definition deserialize_sync ::
    "('p, 'j) codec \<Rightarrow> read_faults \<Rightarrow> 'p tus_upload_info \<Rightarrow> world \<Rightarrow> ('p, 'p option) outcome" where
  "deserialize_sync cd rfl s w =
     (case exists s w of
        (ex, w0) \<Rightarrow>
          if ex then
            (case read_body cd rfl (path s) w0 of
               (Inr Returned_None, w1) \<Rightarrow> (Inr None, s, w1)
             | (Inr (Assigned v), w1) \<Rightarrow> (Inr v, s\<lparr>params := v\<rparr>, w1)
             | (Inl err, w1) \<Rightarrow>
                 if err = JSONDecodeError then
                   (Inr None, s\<lparr>params := None\<rparr>,
                    logger ERROR (''Corrupted JSON in upload info file '' @ path s) (Some err) w1)
                 else if err = FileNotFoundError then
                   (Inr None, s\<lparr>params := None\<rparr>,
                    logger DEBUG (''Upload info file '' @ path s @ '' not found during read'') None w1)
                 else if err = KeyError \<or> err = TypeError then
                   (Inr None, s\<lparr>params := None\<rparr>,
                    logger ERROR (''Invalid data structure in upload info file '' @ path s)
                      (Some err) w1)
                 else if is_OSError err then
                   (Inr None, s\<lparr>params := None\<rparr>,
                    logger ERROR (''I/O error reading upload info file '' @ path s) (Some err) w1)
                 else (Inl err, s, w1))
          else (Inr None, s\<lparr>params := None\<rparr>, w0))"

definition aio_read_body :: "('p, 'j) codec \<Rightarrow> read_faults \<Rightarrow> path \<Rightarrow> 'p body_result io" where
  "aio_read_body cd rfl p =
     and_then (aiofiles_open_r (ropen_f rfl) p) (\<lambda>f.
     and_then (f_read (read_f rfl) p f) (\<lambda>content.
     parse_content cd p (py_strip content)))"

definition deserialize ::
    "('p, 'j) codec \<Rightarrow> read_faults \<Rightarrow> 'p tus_upload_info \<Rightarrow> world \<Rightarrow> ('p, 'p option) outcome" where
  "deserialize cd rfl s w =
     (case exists s w of
        (ex, w0) \<Rightarrow>
          if ex then
            (case aio_read_body cd rfl (path s) w0 of
               (Inr Returned_None, w1) \<Rightarrow> (Inr None, s, w1)
             | (Inr (Assigned v), w1) \<Rightarrow> (Inr v, s\<lparr>params := v\<rparr>, w1)
             | (Inl err, w1) \<Rightarrow>
                 if err = JSONDecodeError then
                   (Inr None, s\<lparr>params := None\<rparr>,
                    logger ERROR (''Corrupted JSON in upload info file '' @ path s) (Some err) w1)
                 else if err = FileNotFoundError then
                   (Inr None, s\<lparr>params := None\<rparr>,
                    logger DEBUG (''Upload info file '' @ path s @ '' not found during read'') None w1)
                 else if err = KeyError \<or> err = TypeError then
                   (Inr None, s\<lparr>params := None\<rparr>,
                    logger ERROR (''Invalid data structure in upload info file '' @ path s)
                      (Some err) w1)
                 else if is_OSError err then
                   (Inr None, s\<lparr>params := None\<rparr>,
                    logger ERROR (''I/O error reading upload info file '' @ path s) (Some err) w1)
                 else (Inl err, s, w1))
          else (Inr None, s\<lparr>params := None\<rparr>, w0))"

subsection \<open>Constructor and accessors\<close>

text \<open>
  \<open>__init__\<close>: \<open>params and not self.exists\<close> asks the filesystem only when \<open>params\<close> is
  truthy. When the persist raises, so does the constructor, and no object is returned.
\<close>

definition init ::
    "('p, 'j) codec \<Rightarrow> write_faults \<Rightarrow> tus_upload_file \<Rightarrow> 'p option \<Rightarrow> 'p tus_upload_info io" where
  "init cd wfl f v w =
     (let s = \<lparr>upload_file = f, params = v, loaded = (v \<noteq> None)\<rparr> in
      if (case v of None \<Rightarrow> False | Some r \<Rightarrow> params_truthy cd r) then
        (case exists s w of
           (ex, w0) \<Rightarrow>
             if \<not> ex then
               (case serialize_sync cd wfl s w0 of
                  (Inl e, w1) \<Rightarrow> (Inl e, w1)
                | (Inr u, w1) \<Rightarrow> (Inr s, w1))
             else (Inr s, w0))
      else (Inr s, w))"

text \<open>The \<open>params\<close> property.\<close>

definition params_getter ::
    "('p, 'j) codec \<Rightarrow> read_faults \<Rightarrow> 'p tus_upload_info \<Rightarrow> world \<Rightarrow> ('p, 'p option) outcome" where
  "params_getter cd rfl s w =
     (if \<not> loaded s then
        (case deserialize_sync cd rfl s w of
           (Inl e, s1, w1) \<Rightarrow> (Inl e, s1, w1)
         | (Inr r, s1, w1) \<Rightarrow> (Inr (params s1), s1\<lparr>loaded := True\<rparr>, w1))
      else (Inr (params s), s, w))"

definition params_setter ::
    "('p, 'j) codec \<Rightarrow> write_faults \<Rightarrow> 'p option \<Rightarrow> 'p tus_upload_info \<Rightarrow> world \<Rightarrow> ('p, unit) outcome" where
  "params_setter cd wfl v s w =
     (let s1 = s\<lparr>params := v, loaded := True\<rparr> in
      case serialize_sync cd wfl s1 w of (r, w1) \<Rightarrow> (r, s1, w1))"

definition update_params ::
    "('p, 'j) codec \<Rightarrow> write_faults \<Rightarrow> 'p option \<Rightarrow> 'p tus_upload_info \<Rightarrow> world \<Rightarrow> ('p, unit) outcome" where
  "update_params cd wfl v s w =
     (let s1 = s\<lparr>params := v, loaded := True\<rparr> in
      case serialize cd wfl s1 w of (r, w1) \<Rightarrow> (r, s1, w1))"

definition load_params ::
    "('p, 'j) codec \<Rightarrow> read_faults \<Rightarrow> 'p tus_upload_info \<Rightarrow> world \<Rightarrow> ('p, 'p option) outcome" where
  "load_params cd rfl s w =
     (if \<not> loaded s then
        (case deserialize cd rfl s w of
           (Inl e, s1, w1) \<Rightarrow> (Inl e, s1, w1)
         | (Inr r, s1, w1) \<Rightarrow> (Inr (params s1), s1\<lparr>loaded := True\<rparr>, w1))
      else (Inr (params s), s, w))"

subsection \<open>Sequences of calls on one object\<close>

datatype accessor = Get | AsyncGet

definition access ::
    "('p, 'j) codec \<Rightarrow> accessor \<Rightarrow> read_faults \<Rightarrow> 'p tus_upload_info \<Rightarrow> world \<Rightarrow>
     ('p, 'p option) outcome" where
  "access cd a rfl s w =
     (case a of Get \<Rightarrow> params_getter cd rfl s w | AsyncGet \<Rightarrow> load_params cd rfl s w)"

fun access_all ::
    "('p, 'j) codec \<Rightarrow> (accessor \<times> read_faults) list \<Rightarrow> 'p tus_upload_info \<Rightarrow> world \<Rightarrow>
     (exn + 'p option) list \<times> 'p tus_upload_info \<times> world" where
  "access_all cd [] s w = ([], s, w)"
| "access_all cd ((a, rfl) # cs) s w =
     (case access cd a rfl s w of
        (r, s1, w1) \<Rightarrow>
          (case access_all cd cs s1 w1 of (rs, s2, w2) \<Rightarrow> (r # rs, s2, w2)))"

text \<open>
  Every method of the class as one call; a caller may go on using the object after a
  call has raised.
\<close>

datatype 'p call =
    Call_params_getter read_faults
  | Call_load_params read_faults
  | Call_params_setter write_faults "'p option"
  | Call_update_params write_faults "'p option"
  | Call_serialize_sync write_faults
  | Call_serialize write_faults
  | Call_deserialize_sync read_faults
  | Call_deserialize read_faults

fun is_accessor :: "'p call \<Rightarrow> bool" where
  "is_accessor (Call_params_getter rfl) = True"
| "is_accessor (Call_load_params rfl) = True"
| "is_accessor _ = False"

definition raised :: "(exn + 'a) \<Rightarrow> bool" where
  "raised r = (case r of Inl e \<Rightarrow> True | Inr x \<Rightarrow> False)"

fun step ::
    "('p, 'j) codec \<Rightarrow> 'p call \<Rightarrow> 'p tus_upload_info \<Rightarrow> world \<Rightarrow>
     bool \<times> 'p tus_upload_info \<times> world" where
  "step cd (Call_params_getter rfl) s w =
     (case params_getter cd rfl s w of (r, s1, w1) \<Rightarrow> (raised r, s1, w1))"
| "step cd (Call_load_params rfl) s w =
     (case load_params cd rfl s w of (r, s1, w1) \<Rightarrow> (raised r, s1, w1))"
| "step cd (Call_params_setter wfl v) s w =
     (case params_setter cd wfl v s w of (r, s1, w1) \<Rightarrow> (raised r, s1, w1))"
| "step cd (Call_update_params wfl v) s w =
     (case update_params cd wfl v s w of (r, s1, w1) \<Rightarrow> (raised r, s1, w1))"
| "step cd (Call_serialize_sync wfl) s w =
     (case serialize_sync cd wfl s w of (r, w1) \<Rightarrow> (raised r, s, w1))"
| "step cd (Call_serialize wfl) s w =
     (case serialize cd wfl s w of (r, w1) \<Rightarrow> (raised r, s, w1))"
| "step cd (Call_deserialize_sync rfl) s w =
     (case deserialize_sync cd rfl s w of (r, s1, w1) \<Rightarrow> (raised r, s1, w1))"
| "step cd (Call_deserialize rfl) s w =
     (case deserialize cd rfl s w of (r, s1, w1) \<Rightarrow> (raised r, s1, w1))"

fun run ::
    "('p, 'j) codec \<Rightarrow> 'p call list \<Rightarrow> 'p tus_upload_info \<Rightarrow> world \<Rightarrow>
     'p tus_upload_info \<times> world" where
  "run cd [] s w = (s, w)"
| "run cd (c # cs) s w = (case step cd c s w of (b, s1, w1) \<Rightarrow> run cd cs s1 w1)"

text \<open>
  The accessor calls of a sequence that touched the filesystem (the trace of filesystem
  calls grew during the call).
\<close>

fun accessor_disk_calls ::
    "('p, 'j) codec \<Rightarrow> 'p call list \<Rightarrow> 'p tus_upload_info \<Rightarrow> world \<Rightarrow> nat" where
  "accessor_disk_calls cd [] s w = 0"
| "accessor_disk_calls cd (c # cs) s w =
     (case step cd c s w of
        (b, s1, w1) \<Rightarrow>
          (if is_accessor c \<and> calls w1 \<noteq> calls w then 1 else 0)
          + accessor_disk_calls cd cs s1 w1)"

subsection \<open>A test double for the record class and the JSON module\<close>

text \<open>
  A record class with the one field \<open>defer_length\<close>, whose value is a Python \<open>bool\<close>
  or, unvalidated, a \<open>datetime\<close> (an object that is not JSON-native and has no
  \<open>__dict__\<close>, so that the \<open>default\<close> hook of \<open>json.dumps\<close> raises \<open>AttributeError\<close>).
  Its instances are truthy. The parser knows the texts below and rejects every other one.
\<close>

datatype demo_value = PyBool bool | PyDatetime

record demo_params =
  defer_length :: demo_value

datatype demo_json = JNull | JObject "(string \<times> bool) list"

definition text_true :: string where
  \<open>text_true = ''{\<newline>    "defer_length": true\<newline>}''\<close>

definition text_false :: string where
  \<open>text_false = ''{\<newline>    "defer_length": false\<newline>}''\<close>

definition text_other :: string where
  \<open>text_other = ''{\<newline>    "size": true\<newline>}''\<close>

definition demo_dumps :: "demo_params option \<Rightarrow> exn + string" where
  "demo_dumps v =
     (case v of
        None \<Rightarrow> Inr ''null''
      | Some r \<Rightarrow>
          (case defer_length r of
             PyBool b \<Rightarrow> Inr (if b then text_true else text_false)
           | PyDatetime \<Rightarrow> Inl AttributeError))"

definition demo_loads :: "string \<Rightarrow> exn + demo_json" where
  "demo_loads t =
     (if t = ''null'' then Inr JNull
      else if t = ''{}'' then Inr (JObject [])
      else if t = text_true then Inr (JObject [(''defer_length'', True)])
      else if t = text_false then Inr (JObject [(''defer_length'', False)])
      else if t = text_other then Inr (JObject [(''size'', True)])
      else Inl JSONDecodeError)"

definition demo_truthy :: "demo_json \<Rightarrow> bool" where
  "demo_truthy j = (case j of JNull \<Rightarrow> False | JObject kvs \<Rightarrow> kvs \<noteq> [])"

definition demo_TusUploadParams :: "demo_json \<Rightarrow> exn + demo_params" where
  "demo_TusUploadParams j =
     (case j of
        JObject [(k, b)] \<Rightarrow>
          if k = ''defer_length'' then Inr \<lparr>defer_length = PyBool b\<rparr> else Inl TypeError
      | _ \<Rightarrow> Inl TypeError)"

definition demo_codec :: "(demo_params, demo_json) codec" where
  "demo_codec =
     \<lparr>json_dumps = demo_dumps, json_loads = demo_loads, truthy = demo_truthy,
      TusUploadParams = demo_TusUploadParams, params_truthy = (\<lambda>r. True)\<rparr>"

definition demo_file :: tus_upload_file where
  "demo_file = \<lparr>files_dir = ''/uploads'', uid = ''abc''\<rparr>"

definition demo_R :: demo_params where
  "demo_R = \<lparr>defer_length = PyBool True\<rparr>"

definition demo_R2 :: demo_params where
  "demo_R2 = \<lparr>defer_length = PyBool False\<rparr>"

definition demo_unserializable :: demo_params where
  "demo_unserializable = \<lparr>defer_length = PyDatetime\<rparr>"

text \<open>Stores: not loaded, and loaded with \<open>demo_R\<close>.\<close>

definition demo_unloaded :: "demo_params tus_upload_info" where
  "demo_unloaded = \<lparr>upload_file = demo_file, params = None, loaded = False\<rparr>"

definition demo_loaded :: "demo_params tus_upload_info" where
  "demo_loaded = \<lparr>upload_file = demo_file, params = Some demo_R, loaded = True\<rparr>"

text \<open>
  Worlds: an empty directory; the info file holding \<open>demo_R2\<close>; the info file empty;
  the info file holding bytes that are no text.
\<close>

definition world_of :: "(path \<rightharpoonup> string) \<Rightarrow> world" where
  "world_of fs = \<lparr>files = fs, logged = [], calls = []\<rparr>"

definition demo_empty_dir :: world where
  "demo_empty_dir = world_of Map.empty"

definition demo_with_file :: world where
  "demo_with_file = world_of [''/uploads/abc.info'' \<mapsto> text_false]"

definition demo_blank_file :: world where
  "demo_blank_file = world_of [''/uploads/abc.info'' \<mapsto> '' \<newline>'']"

definition demo_undecodable_file :: world where
  "demo_undecodable_file = world_of [''/uploads/abc.info'' \<mapsto> [CHR 0xFF, CHR 0xFE]]"

definition undecodable :: read_faults where
  "undecodable = \<lparr>ropen_f = None, read_f = Some UnicodeDecodeError\<rparr>"

text \<open>Faults: \<open>os.fsync\<close> fails; \<open>open\<close> for reading is denied.\<close>

definition fsync_fails :: write_faults where
  "fsync_fails =
     \<lparr>open_f = None, write_f = None, flush_f = None, fsync_f = Some OSError, rename_f = None,
      remove_f = None\<rparr>"

definition read_denied :: read_faults where
  "read_denied = \<lparr>ropen_f = Some PermissionError, read_f = None\<rparr>"

subsection \<open>Predicates used in the statements\<close>

text \<open>The exception classes that a handler of the read path catches.\<close>

definition handled_on_read :: "exn \<Rightarrow> bool" where
  "handled_on_read e =
     (e = JSONDecodeError \<or> e = FileNotFoundError \<or> e = KeyError \<or> e = TypeError
      \<or> is_OSError e)"

text \<open>The exception classes that a handler of the write path catches.\<close>

definition handled_on_write :: "exn \<Rightarrow> bool" where
  "handled_on_write e = (is_OSError e \<or> e = TypeError \<or> is_ValueError e)"

text \<open>
  A record is valid when the JSON module writes it as a text that is not blank, parses
  the stripped text to a truthy value, and the record class builds the same record from
  that value.
\<close>

definition valid_record :: "('p, 'j) codec \<Rightarrow> 'p \<Rightarrow> bool" where
  "valid_record cd R =
     (case json_dumps cd (Some R) of
        Inl e \<Rightarrow> False
      | Inr txt \<Rightarrow>
          py_strip txt \<noteq> [] \<and>
          (case json_loads cd (py_strip txt) of
             Inl e \<Rightarrow> False
           | Inr j \<Rightarrow> truthy cd j \<and> TusUploadParams cd j = Inr R))"

text \<open>The object that \<open>__init__\<close> builds for an owner and an optional record.\<close>

definition fresh :: "tus_upload_file \<Rightarrow> 'p option \<Rightarrow> 'p tus_upload_info" where
  "fresh f v = \<lparr>upload_file = f, params = v, loaded = (v \<noteq> None)\<rparr>"

section \<open>Properties\<close>

subsection \<open>Basic facts\<close>

lemmas prim_defs = open_w_def f_write_def f_flush_def os_fsync_def os_rename_def os_remove_def
  open_r_def f_read_def traced_def logger_def os_path_exists_def

lemmas model_defs =
  init_def params_getter_def params_setter_def update_params_def load_params_def
  serialize_sync_def serialize_def deserialize_sync_def deserialize_def
  write_body_def aio_write_body_def read_body_def aio_read_body_def parse_content_def
  cleanup_temp_def aio_cleanup_temp_def exists_def path_def os_path_join_def
  aiofiles_open_w_def aiofiles_open_r_def aiofiles_os_rename_def aiofiles_os_remove_def
  and_then_def prim_defs no_write_faults_def no_read_faults_def access_def raised_def
  py_strip_def is_whitespace_def fresh_def

lemmas demo_defs =
  demo_codec_def demo_dumps_def demo_loads_def demo_truthy_def demo_TusUploadParams_def
  demo_file_def demo_R_def demo_R2_def demo_unserializable_def demo_unloaded_def demo_loaded_def
  world_of_def demo_empty_dir_def demo_with_file_def demo_blank_file_def
  demo_undecodable_file_def undecodable_def fsync_fails_def read_denied_def text_true_def text_false_def text_other_def

lemma temp_path_neq: "p @ ''.tmp'' \<noteq> (p::string)"
  by simp

lemma path_update [simp]:
  "path (s\<lparr>params := v\<rparr>) = path s" "path (s\<lparr>loaded := b\<rparr>) = path s"
  by (simp_all add: path_def)

lemma path_fresh: "path (fresh f v) = os_path_join (files_dir f) (uid f @ ''.info'')"
  by (simp add: path_def fresh_def)

subsection \<open>The non-blocking methods compute what the blocking ones do\<close>

lemma aio_write_body_eq: "aio_write_body = write_body"
  unfolding aio_write_body_def write_body_def aiofiles_open_w_def aiofiles_os_rename_def ..

lemma aio_cleanup_temp_eq: "aio_cleanup_temp = cleanup_temp"
  unfolding aio_cleanup_temp_def cleanup_temp_def aiofiles_os_remove_def ..

lemma serialize_eq: "serialize = serialize_sync"
  unfolding serialize_def serialize_sync_def aio_write_body_eq aio_cleanup_temp_eq ..

lemma aio_read_body_eq: "aio_read_body = read_body"
  unfolding aio_read_body_def read_body_def aiofiles_open_r_def ..

lemma deserialize_eq: "deserialize = deserialize_sync"
  unfolding deserialize_def deserialize_sync_def aio_read_body_eq ..

lemma load_params_eq: "load_params = params_getter"
  unfolding load_params_def params_getter_def deserialize_eq ..

lemma update_params_eq: "update_params = params_setter"
  unfolding update_params_def params_setter_def serialize_eq ..

subsection \<open>The write path\<close>

lemma write_body_fail:
  assumes "write_body cd wfl tmp p v w = (Inl e, w1)" and "tmp \<noteq> p"
  shows "files w1 p = files w p \<and> logged w1 = logged w"
  using assms
  by (auto simp: write_body_def and_then_def prim_defs split: option.splits sum.splits prod.splits)

lemma write_body_ok:
  assumes "write_body cd wfl tmp p v w = (Inr u, w1)" and "tmp \<noteq> p"
  shows "\<exists>txt. json_dumps cd v = Inr txt \<and> files w1 = ((files w)(tmp := None))(p \<mapsto> txt) \<and> logged w1 = logged w"
  using assms
  by (auto simp: write_body_def and_then_def prim_defs split: option.splits sum.splits prod.splits)

lemma write_body_no_faults:
  assumes "json_dumps cd v = Inr txt" and "tmp \<noteq> p"
  shows "write_body cd no_write_faults tmp p v w =
     (Inr (), w\<lparr>files := ((files w)(tmp := None))(p \<mapsto> txt),
               calls := calls w @ [OpenWrite tmp, WriteText tmp, Flush tmp, Fsync tmp, Rename tmp p]\<rparr>)"
  using assms
  by (simp add: write_body_def and_then_def prim_defs no_write_faults_def fun_upd_twist)

lemma cleanup_temp_other:
  "p \<noteq> tmp \<Longrightarrow> files (cleanup_temp flt tmp w) p = files w p"
  by (auto simp: cleanup_temp_def prim_defs split: option.splits sum.splits prod.splits)

lemma cleanup_temp_result:
  "files (cleanup_temp flt tmp w) tmp = None \<or>
   (\<exists>ce. flt = Some ce \<and> files (cleanup_temp flt tmp w) tmp = files w tmp \<and>
      logged (cleanup_temp flt tmp w) =
        logged w @ [(WARNING, ''Failed to cleanup temp file '' @ tmp, Some ce)])"
  by (auto simp: cleanup_temp_def prim_defs split: option.splits sum.splits prod.splits)

lemma serialize_sync_fail_files:
  assumes "serialize_sync cd wfl s w = (Inl e, w')"
  shows "files w' (path s) = files w (path s)"
proof -
  let ?tmp = "path s @ ''.tmp''"
  obtain r w1 where b: "write_body cd wfl ?tmp (path s) (params s) w = (r, w1)"
    by (cases "write_body cd wfl ?tmp (path s) (params s) w")
  from assms b obtain err where r: "r = Inl err"
    by (cases r) (auto simp: serialize_sync_def Let_def)
  from b r have f: "files w1 (path s) = files w (path s)"
    using write_body_fail [of cd wfl ?tmp "path s" "params s" w err w1] by simp
  from assms b r f show ?thesis
    by (auto simp: serialize_sync_def Let_def cleanup_temp_other logger_def split: if_splits)
qed

lemma serialize_sync_raises_body:
  "fst (serialize_sync cd wfl s w) = fst (write_body cd wfl (path s @ ''.tmp'') (path s) (params s) w)"
  by (auto simp: serialize_sync_def Let_def split: prod.splits sum.splits)

lemma serialize_sync_ok:
  assumes "serialize_sync cd wfl s w = (Inr u, w')"
  shows "\<exists>txt. json_dumps cd (params s) = Inr txt \<and> files w' (path s) = Some txt \<and>
           files w' (path s @ ''.tmp'') = None \<and> logged w' = logged w"
proof -
  let ?tmp = "path s @ ''.tmp''"
  obtain r w1 where b: "write_body cd wfl ?tmp (path s) (params s) w = (r, w1)"
    by (cases "write_body cd wfl ?tmp (path s) (params s) w")
  from assms b have r: "r = Inr ()" and w: "w' = w1"
    by (cases r; auto simp: serialize_sync_def Let_def split: if_splits)+
  from b r show ?thesis
    using write_body_ok [of cd wfl ?tmp "path s" "params s" w "()" w1] w by auto
qed

lemma init_unfold:
  "init cd wfl f v w =
     (if (case v of None \<Rightarrow> False | Some r \<Rightarrow> params_truthy cd r) then
        (if files w (path (fresh f v)) \<noteq> None then (Inr (fresh f v), traced (Exists (path (fresh f v))) w)
         else (case serialize_sync cd wfl (fresh f v) (traced (Exists (path (fresh f v))) w) of
                  (Inl e, w1) \<Rightarrow> (Inl e, w1)
                | (Inr u, w1) \<Rightarrow> (Inr (fresh f v), w1)))
      else (Inr (fresh f v), w))"
  unfolding init_def fresh_def exists_def os_path_exists_def Let_def
  by (auto split: prod.splits sum.splits)

subsection \<open>The read path\<close>

lemma read_body_logged:
  "read_body cd rfl p w = (Inl e, w1) \<Longrightarrow> logged w1 = logged w \<and> files w1 = files w"
  by (auto simp: read_body_def parse_content_def and_then_def prim_defs
      split: option.splits sum.splits prod.splits if_splits)

lemma read_body_files:
  "read_body cd rfl p w = (r, w1) \<Longrightarrow> files w1 = files w"
  by (auto simp: read_body_def parse_content_def and_then_def prim_defs
      split: option.splits sum.splits prod.splits if_splits)

lemma deserialize_sync_frame:
  "deserialize_sync cd rfl s w = (r, s1, w1) \<Longrightarrow>
     loaded s1 = loaded s \<and> upload_file s1 = upload_file s \<and> files w1 = files w"
  by (auto simp: deserialize_sync_def exists_def os_path_exists_def traced_def logger_def
      dest: read_body_files split: prod.splits sum.splits body_result.splits if_splits)

lemma access_eq: "access cd a rfl s w = params_getter cd rfl s w"
  by (cases a) (simp_all add: access_def load_params_eq)

lemma access_loaded: "loaded s \<Longrightarrow> access cd a rfl s w = (Inr (params s), s, w)"
  by (simp add: access_eq params_getter_def)

lemma access_returns:
  assumes "access cd a rfl s w = (Inr v, s1, w1)"
  shows "loaded s1 \<and> params s1 = v"
  using assms
  by (auto simp: access_eq params_getter_def split: if_splits prod.splits sum.splits)

lemma access_all_loaded:
  "loaded s \<Longrightarrow> access_all cd cs s w = (replicate (length cs) (Inr (params s)), s, w)"
  by (induction cs) (auto simp: access_loaded)

subsection \<open>Sequences of calls\<close>

lemma step_loaded:
  assumes "loaded s" and "step cd c s w = (b, s1, w1)"
  shows "loaded s1"
proof (cases c)
  case (Call_deserialize_sync rfl)
  with assms deserialize_sync_frame [of cd rfl s w] show ?thesis
    by (auto split: prod.splits)
next
  case (Call_deserialize rfl)
  with assms deserialize_sync_frame [of cd rfl s w] show ?thesis
    by (auto simp: deserialize_eq split: prod.splits)
qed (use assms in \<open>auto simp: load_params_eq update_params_eq params_getter_def params_setter_def
      Let_def split: prod.splits\<close>)

lemma step_accessor_loaded:
  assumes "loaded s" and "is_accessor c"
  shows "step cd c s w = (False, s, w)"
  using assms by (cases c) (simp_all add: load_params_eq params_getter_def raised_def)

lemma run_loaded: "loaded s \<Longrightarrow> loaded (fst (run cd cs s w))"
proof (induction cs arbitrary: s w)
  case Nil
  then show ?case by simp
next
  case (Cons c cs)
  obtain b s1 w1 where st: "step cd c s w = (b, s1, w1)" by (cases "step cd c s w")
  with Cons.prems have "loaded s1" by (rule step_loaded)
  then show ?case using Cons.IH st by simp
qed

lemma accessor_disk_calls_loaded: "loaded s \<Longrightarrow> accessor_disk_calls cd cs s w = 0"
proof (induction cs arbitrary: s w)
  case Nil
  then show ?case by simp
next
  case (Cons c cs)
  obtain b s1 w1 where st: "step cd c s w = (b, s1, w1)" by (cases "step cd c s w")
  with Cons.prems have l: "loaded s1" by (rule step_loaded)
  show ?case
  proof (cases "is_accessor c")
    case True
    with Cons.prems st step_accessor_loaded [of s c cd w] have "w1 = w" by simp
    with st l Cons.IH show ?thesis by simp
  next
    case False
    with st l Cons.IH show ?thesis by simp
  qed
qed

section \<open>The claims\<close>

subsection \<open>C1: round trip\<close>

text \<open>
  C1. For every valid record \<open>R\<close>: on a filesystem without faults, the setter called
  with \<open>R\<close> on any store returns without raising, constructing a store for the same
  owner with no initial record touches nothing, and the getter of that fresh store
  returns \<open>R\<close>.
\<close>

theorem set_then_fresh_get:
  assumes "valid_record cd R"
  shows "fst (params_setter cd no_write_faults (Some R) s w) = Inr ()
       \<and> init cd wfl (upload_file s) None (snd (snd (params_setter cd no_write_faults (Some R) s w)))
           = (Inr (fresh (upload_file s) None), snd (snd (params_setter cd no_write_faults (Some R) s w)))
       \<and> fst (params_getter cd no_read_faults (fresh (upload_file s) None)
                (snd (snd (params_setter cd no_write_faults (Some R) s w)))) = Inr (Some R)"
proof -
  let ?s1 = "s\<lparr>params := Some R, loaded := True\<rparr>"
  let ?f = "fresh (upload_file s) None"
  from assms obtain js j where d: "json_dumps cd (Some R) = Inr js" and ne: "py_strip js \<noteq> []"
    and l: "json_loads cd (py_strip js) = Inr j" and t: "truthy cd j"
    and c: "TusUploadParams cd j = Inr R"
    by (auto simp: valid_record_def split: sum.splits)
  have p: "path ?f = path s" by (simp add: path_def fresh_def)
  have wb: "write_body cd no_write_faults (path s @ ''.tmp'') (path s) (Some R) w =
     (Inr (), w\<lparr>files := ((files w)(path s @ ''.tmp'' := None))(path s \<mapsto> js),
               calls := calls w @ [OpenWrite (path s @ ''.tmp''), WriteText (path s @ ''.tmp''),
                 Flush (path s @ ''.tmp''), Fsync (path s @ ''.tmp''),
                 Rename (path s @ ''.tmp'') (path s)]\<rparr>)" (is "_ = (_, ?w1)")
    using write_body_no_faults [OF d, of "path s @ ''.tmp''" "path s" w] by simp
  have st: "params_setter cd no_write_faults (Some R) s w = (Inr (), ?s1, ?w1)"
    by (simp add: params_setter_def Let_def serialize_sync_def wb)
  have i: "init cd wfl (upload_file s) None ?w1 = (Inr ?f, ?w1)"
    by (simp add: init_unfold)
  have rb: "read_body cd no_read_faults (path s) (traced (Exists (path s)) ?w1)
      = (Inr (Assigned (Some R)), traced (ReadAll (path s)) (traced (OpenRead (path s)) (traced (Exists (path s)) ?w1)))"
    using ne l t c
    by (simp add: read_body_def and_then_def open_r_def f_read_def no_read_faults_def
        parse_content_def traced_def)
  have g: "fst (params_getter cd no_read_faults ?f ?w1) = Inr (Some R)"
    by (simp add: params_getter_def deserialize_sync_def exists_def os_path_exists_def p rb)
       (simp add: fresh_def)
  from st i g show ?thesis by simp
qed

theorem set_then_fresh_get_witness:
  "valid_record demo_codec demo_R
   \<and> fst (params_setter demo_codec no_write_faults (Some demo_R) demo_unloaded demo_empty_dir) = Inr ()
   \<and> fst (params_getter demo_codec no_read_faults (fresh demo_file None)
        (snd (snd (params_setter demo_codec no_write_faults (Some demo_R) demo_unloaded
           demo_empty_dir)))) = Inr (Some demo_R)"
proof -
  have h: "valid_record demo_codec demo_R"
    by (simp add: valid_record_def py_strip_def is_whitespace_def demo_defs)
  have u: "upload_file demo_unloaded = demo_file" by (simp add: demo_unloaded_def)
  show ?thesis
    using h set_then_fresh_get [OF h, of demo_unloaded demo_empty_dir no_write_faults]
    by (simp add: u)
qed

subsection \<open>C2: the read path raises on a file that is no text\<close>

text \<open>
  C2. The read path is meant never to raise. A store that is not loaded, its info file
  holding bytes that are no text: \<open>f.read()\<close> raises \<open>UnicodeDecodeError\<close>, a
  \<open>ValueError\<close> that is no \<open>JSONDecodeError\<close>; no handler of the read path names it,
  and \<open>get()\<close> and \<open>asyncGet()\<close> raise it, where the handler for corrupted JSON beside
  it returns null.
\<close>

theorem undecodable_file_read_raises:
  "fst (params_getter demo_codec undecodable demo_unloaded demo_undecodable_file)
     = Inl UnicodeDecodeError
   \<and> fst (load_params demo_codec undecodable demo_unloaded demo_undecodable_file)
     = Inl UnicodeDecodeError"
  by (simp add: model_defs demo_defs)

text \<open>
  For the exception classes that the handlers name the read path keeps its promise. On
  a store that is not loaded, \<open>get()\<close> and \<open>asyncGet()\<close> raise no exception of the
  classes \<open>JSONDecodeError\<close>, \<open>FileNotFoundError\<close>, \<open>KeyError\<close>, \<open>TypeError\<close>,
  \<open>OSError\<close>. They return null, with the cache null and \<open>loaded\<close> set, when the file
  is absent (nothing is logged) and when opening, reading, parsing or building the
  record raises an exception of one of these classes (one record is logged, at debug
  level for \<open>FileNotFoundError\<close> and at error level otherwise). When the file is empty
  or all whitespace they log one warning and return what the cache held, which is null
  for a store built without a record.
\<close>

theorem read_path_degrades:
  assumes "\<not> loaded s"
  shows "(\<forall>e. fst (access cd a rfl s w) = Inl e \<longrightarrow> \<not> handled_on_read e)
       \<and> (files w (path s) = None \<longrightarrow>
            access cd a rfl s w = (Inr None, s\<lparr>params := None, loaded := True\<rparr>, traced (Exists (path s)) w))
       \<and> (\<forall>e. files w (path s) \<noteq> None
               \<and> fst (read_body cd rfl (path s) (traced (Exists (path s)) w)) = Inl e
               \<and> handled_on_read e \<longrightarrow>
            fst (access cd a rfl s w) = Inr None
            \<and> fst (snd (access cd a rfl s w)) = s\<lparr>params := None, loaded := True\<rparr>
            \<and> (\<exists>msg x. logged (snd (snd (access cd a rfl s w)))
                  = logged w @ [(if e = FileNotFoundError then DEBUG else ERROR, msg, x)]))
       \<and> (\<forall>c. files w (path s) = Some c \<and> list_all is_whitespace c
               \<and> ropen_f rfl = None \<and> read_f rfl = None \<longrightarrow>
            fst (access cd a rfl s w) = Inr (params s)
            \<and> fst (snd (access cd a rfl s w)) = s\<lparr>loaded := True\<rparr>
            \<and> logged (snd (snd (access cd a rfl s w)))
                  = logged w @ [(WARNING, ''Upload info file '' @ path s @ '' is empty'', None)])"
proof -
  let ?w0 = "traced (Exists (path s)) w"
  have g: "access cd a rfl s w = (case deserialize_sync cd rfl s w of
           (Inl e, s1, w1) \<Rightarrow> (Inl e, s1, w1)
         | (Inr r, s1, w1) \<Rightarrow> (Inr (params s1), s1\<lparr>loaded := True\<rparr>, w1))"
    using assms by (simp add: access_eq params_getter_def)
  have d0: "files w (path s) = None \<Longrightarrow>
      deserialize_sync cd rfl s w = (Inr None, s\<lparr>params := None\<rparr>, ?w0)"
    by (simp add: deserialize_sync_def exists_def os_path_exists_def)
  have d1: "files w (path s) \<noteq> None \<Longrightarrow> deserialize_sync cd rfl s w =
      (case read_body cd rfl (path s) ?w0 of
               (Inr Returned_None, w1) \<Rightarrow> (Inr None, s, w1)
             | (Inr (Assigned v), w1) \<Rightarrow> (Inr v, s\<lparr>params := v\<rparr>, w1)
             | (Inl err, w1) \<Rightarrow>
                 if err = JSONDecodeError then
                   (Inr None, s\<lparr>params := None\<rparr>,
                    logger ERROR (''Corrupted JSON in upload info file '' @ path s) (Some err) w1)
                 else if err = FileNotFoundError then
                   (Inr None, s\<lparr>params := None\<rparr>,
                    logger DEBUG (''Upload info file '' @ path s @ '' not found during read'') None w1)
                 else if err = KeyError \<or> err = TypeError then
                   (Inr None, s\<lparr>params := None\<rparr>,
                    logger ERROR (''Invalid data structure in upload info file '' @ path s)
                      (Some err) w1)
                 else if is_OSError err then
                   (Inr None, s\<lparr>params := None\<rparr>,
                    logger ERROR (''I/O error reading upload info file '' @ path s) (Some err) w1)
                 else (Inl err, s, w1))"
    unfolding deserialize_sync_def exists_def os_path_exists_def by auto
  have c1: "\<forall>e. fst (access cd a rfl s w) = Inl e \<longrightarrow> \<not> handled_on_read e"
  proof (cases "files w (path s) = None")
    case True
    then show ?thesis by (simp add: g d0)
  next
    case False
    then show ?thesis
      by (auto simp: g d1 handled_on_read_def
          split: prod.splits sum.splits body_result.splits if_splits)
  qed
  have c2: "files w (path s) = None \<longrightarrow>
            access cd a rfl s w = (Inr None, s\<lparr>params := None, loaded := True\<rparr>, ?w0)"
    by (simp add: g d0)
  have c3: "\<forall>e. files w (path s) \<noteq> None
               \<and> fst (read_body cd rfl (path s) ?w0) = Inl e \<and> handled_on_read e \<longrightarrow>
            fst (access cd a rfl s w) = Inr None
            \<and> fst (snd (access cd a rfl s w)) = s\<lparr>params := None, loaded := True\<rparr>
            \<and> (\<exists>msg x. logged (snd (snd (access cd a rfl s w)))
                  = logged w @ [(if e = FileNotFoundError then DEBUG else ERROR, msg, x)])"
  proof (intro allI impI, elim conjE)
    fix e
    assume ex: "files w (path s) \<noteq> None"
      and rb: "fst (read_body cd rfl (path s) ?w0) = Inl e" and h: "handled_on_read e"
    obtain w1 where b: "read_body cd rfl (path s) ?w0 = (Inl e, w1)"
      using rb by (cases "read_body cd rfl (path s) ?w0") simp
    from read_body_logged [OF b] have lg: "logged w1 = logged w" by (simp add: traced_def)
    from h lg show "fst (access cd a rfl s w) = Inr None
            \<and> fst (snd (access cd a rfl s w)) = s\<lparr>params := None, loaded := True\<rparr>
            \<and> (\<exists>msg x. logged (snd (snd (access cd a rfl s w)))
                  = logged w @ [(if e = FileNotFoundError then DEBUG else ERROR, msg, x)])"
      by (auto simp: g d1 [OF ex] b handled_on_read_def logger_def)
  qed
  have c4: "\<forall>c. files w (path s) = Some c \<and> list_all is_whitespace c
               \<and> ropen_f rfl = None \<and> read_f rfl = None \<longrightarrow>
            fst (access cd a rfl s w) = Inr (params s)
            \<and> fst (snd (access cd a rfl s w)) = s\<lparr>loaded := True\<rparr>
            \<and> logged (snd (snd (access cd a rfl s w)))
                  = logged w @ [(WARNING, ''Upload info file '' @ path s @ '' is empty'', None)]"
  proof (intro allI impI, elim conjE)
    fix c
    assume f: "files w (path s) = Some c" and ws: "list_all is_whitespace c"
      and o: "ropen_f rfl = None" and r: "read_f rfl = None"
    from ws have dw: "dropWhile is_whitespace c = []" by (simp add: list_all_iff)
    have st: "py_strip c = []" unfolding py_strip_def dw by simp
    have b: "read_body cd rfl (path s) ?w0 =
        (Inr Returned_None, logger WARNING (''Upload info file '' @ path s @ '' is empty'') None
           (traced (ReadAll (path s)) (traced (OpenRead (path s)) ?w0)))"
      using f o r st
      by (simp add: read_body_def and_then_def open_r_def f_read_def parse_content_def traced_def)
    from f have ex: "files w (path s) \<noteq> None" by simp
    show "fst (access cd a rfl s w) = Inr (params s)
            \<and> fst (snd (access cd a rfl s w)) = s\<lparr>loaded := True\<rparr>
            \<and> logged (snd (snd (access cd a rfl s w)))
                  = logged w @ [(WARNING, ''Upload info file '' @ path s @ '' is empty'', None)]"
      using assms by (simp add: g d1 [OF ex] b) (simp add: logger_def traced_def)
  qed
  from c1 c2 c3 c4 show ?thesis by blast
qed

theorem read_path_degrades_witness:
  "\<not> loaded demo_unloaded \<and> params demo_unloaded = None
   \<and> files demo_empty_dir (path demo_unloaded) = None
   \<and> access demo_codec Get no_read_faults demo_unloaded demo_empty_dir
       = (Inr None, demo_unloaded\<lparr>params := None, loaded := True\<rparr>,
          traced (Exists (path demo_unloaded)) demo_empty_dir)
   \<and> handled_on_read PermissionError
   \<and> fst (access demo_codec AsyncGet read_denied demo_unloaded demo_with_file) = Inr None
   \<and> list_all is_whitespace '' \<newline>''
   \<and> fst (access demo_codec Get no_read_faults demo_unloaded demo_blank_file)
       = Inr (params demo_unloaded)
   \<and> logged (snd (snd (access demo_codec Get no_read_faults demo_unloaded demo_blank_file)))
       = logged demo_blank_file
         @ [(WARNING, ''Upload info file '' @ path demo_unloaded @ '' is empty'', None)]"
proof -
  have a: "\<not> loaded demo_unloaded" and b: "params demo_unloaded = None"
    by (simp_all add: demo_unloaded_def)
  have p: "path demo_unloaded = ''/uploads/abc.info''"
    by (simp add: path_def os_path_join_def demo_unloaded_def demo_file_def)
  have f0: "files demo_empty_dir (path demo_unloaded) = None"
    by (simp add: demo_empty_dir_def world_of_def)
  have f1: "files demo_with_file (path demo_unloaded) \<noteq> None"
    by (simp add: p demo_with_file_def world_of_def)
  have r1: "fst (read_body demo_codec read_denied (path demo_unloaded)
      (traced (Exists (path demo_unloaded)) demo_with_file)) = Inl PermissionError"
    by (simp add: read_body_def and_then_def open_r_def read_denied_def)
  have h: "handled_on_read PermissionError" by (simp add: handled_on_read_def)
  have f2: "files demo_blank_file (path demo_unloaded) = Some '' \<newline>''"
    by (simp add: p demo_blank_file_def world_of_def)
  have ws: "list_all is_whitespace '' \<newline>''" by (simp add: is_whitespace_def)
  have o: "ropen_f no_read_faults = None" "read_f no_read_faults = None"
    by (simp_all add: no_read_faults_def)
  note t0 = read_path_degrades [OF a, of demo_codec Get no_read_faults demo_empty_dir]
  note t1 = read_path_degrades [OF a, of demo_codec AsyncGet read_denied demo_with_file]
  note t2 = read_path_degrades [OF a, of demo_codec Get no_read_faults demo_blank_file]
  from t0 have "files demo_empty_dir (path demo_unloaded) = None \<longrightarrow>
      access demo_codec Get no_read_faults demo_unloaded demo_empty_dir
       = (Inr None, demo_unloaded\<lparr>params := None, loaded := True\<rparr>,
          traced (Exists (path demo_unloaded)) demo_empty_dir)"
    by (rule conjunct1 [OF conjunct2])
  with f0 have c2: "access demo_codec Get no_read_faults demo_unloaded demo_empty_dir
       = (Inr None, demo_unloaded\<lparr>params := None, loaded := True\<rparr>,
          traced (Exists (path demo_unloaded)) demo_empty_dir)" by (rule rev_mp)
  from t1 [THEN conjunct2, THEN conjunct2, THEN conjunct1, THEN spec, of PermissionError]
    f1 r1 h
  have c3: "fst (access demo_codec AsyncGet read_denied demo_unloaded demo_with_file) = Inr None"
    by (elim impE conjE) (intro conjI | assumption)+
  from t2 [THEN conjunct2, THEN conjunct2, THEN conjunct2, THEN spec, of "'' \<newline>''"]
    f2 ws o
  have c4: "fst (access demo_codec Get no_read_faults demo_unloaded demo_blank_file)
       = Inr (params demo_unloaded)
    \<and> logged (snd (snd (access demo_codec Get no_read_faults demo_unloaded demo_blank_file)))
       = logged demo_blank_file
         @ [(WARNING, ''Upload info file '' @ path demo_unloaded @ '' is empty'', None)]"
    by (elim impE conjE) (intro conjI | assumption)+
  from a b f0 c2 h c3 ws c4 show ?thesis by (intro conjI) (erule conjunct1 conjunct2 | assumption)+
qed

subsection \<open>C3: a serialization failure that leaves the temp file\<close>

text \<open>
  C3. Every failure of the persist is meant to remove the temp file. A record whose
  field holds an object that is not JSON-native and has no \<open>__dict__\<close>: the \<open>default\<close>
  hook of \<open>json.dumps\<close> raises \<open>AttributeError\<close>, neither handler matches, the
  exception reaches the caller, and the temp file opened before stays behind, empty,
  where the handler for \<open>TypeError\<close> beside it removes the file.
\<close>

theorem unhandled_dumps_failure_leaves_temp:
  "fst (params_setter demo_codec no_write_faults (Some demo_unserializable) demo_unloaded
          demo_empty_dir) = Inl AttributeError
   \<and> files (snd (snd (params_setter demo_codec no_write_faults (Some demo_unserializable)
          demo_unloaded demo_empty_dir))) ''/uploads/abc.info.tmp'' = Some []"
  by (simp add: model_defs demo_defs Let_def)

text \<open>
  For the exception classes that the handlers name the cleanup is done. For every
  failure of class \<open>OSError\<close> (\<open>IOError\<close>), \<open>TypeError\<close> or \<open>ValueError\<close> while opening
  the temp file, serializing, writing, flushing, syncing or renaming, the persist raises
  that same exception, blocking and non-blocking alike, and afterwards either the temp
  file is gone or its removal failed and the last log record is the warning about the
  failed cleanup.
\<close>

theorem write_failure_cleanup:
  assumes "fst (write_body cd wfl (path s @ ''.tmp'') (path s) (params s) w) = Inl err"
    and "handled_on_write err"
  shows "fst (serialize_sync cd wfl s w) = Inl err
       \<and> serialize cd wfl s w = serialize_sync cd wfl s w
       \<and> (files (snd (serialize_sync cd wfl s w)) (path s @ ''.tmp'') = None
          \<or> (\<exists>ce. remove_f wfl = Some ce
                \<and> last (logged (snd (serialize_sync cd wfl s w)))
                    = (WARNING, ''Failed to cleanup temp file '' @ path s @ ''.tmp'', Some ce)))"
proof -
  let ?tmp = "path s @ ''.tmp''"
  obtain w1 where b: "write_body cd wfl ?tmp (path s) (params s) w = (Inl err, w1)"
    using assms(1) by (cases "write_body cd wfl ?tmp (path s) (params s) w") simp
  have "\<exists>m. serialize_sync cd wfl s w =
      (Inl err, cleanup_temp (remove_f wfl) ?tmp (logger ERROR m (Some err) w1))"
    using assms(2) b by (auto simp: serialize_sync_def Let_def handled_on_write_def)
  then obtain m where ser: "serialize_sync cd wfl s w =
      (Inl err, cleanup_temp (remove_f wfl) ?tmp (logger ERROR m (Some err) w1))" ..
  from cleanup_temp_result [of "remove_f wfl" ?tmp "logger ERROR m (Some err) w1"]
  show ?thesis by (auto simp: ser serialize_eq)
qed

theorem write_failure_cleanup_witness:
  "fst (write_body demo_codec fsync_fails (path demo_loaded @ ''.tmp'') (path demo_loaded)
          (params demo_loaded) demo_empty_dir) = Inl OSError
   \<and> handled_on_write OSError
   \<and> fst (serialize_sync demo_codec fsync_fails demo_loaded demo_empty_dir) = Inl OSError
   \<and> files (snd (serialize_sync demo_codec fsync_fails demo_loaded demo_empty_dir))
        ''/uploads/abc.info.tmp'' = None"
proof -
  have b: "fst (write_body demo_codec fsync_fails (path demo_loaded @ ''.tmp'') (path demo_loaded)
          (params demo_loaded) demo_empty_dir) = Inl OSError"
    by (simp add: model_defs demo_defs)
  have h: "handled_on_write OSError" by (simp add: handled_on_write_def)
  have p: "path demo_loaded = ''/uploads/abc.info''"
    by (simp add: path_def os_path_join_def demo_loaded_def demo_file_def)
  have r: "remove_f fsync_fails = None" by (simp add: fsync_fails_def)
  show ?thesis
    using b h write_failure_cleanup [OF b h] by (simp add: p r)
qed

subsection \<open>C4: a failed set\<close>

text \<open>
  C4. Whenever the setter called with \<open>v\<close> raises, at whatever step of the persist, the
  file at the canonical path is what it was before the call (the same content, or still
  absent), the cached record is \<open>v\<close> and \<open>loaded\<close> is true.
\<close>

theorem failed_set_window:
  assumes "fst (params_setter cd wfl v s w) = Inl e"
  shows "files (snd (snd (params_setter cd wfl v s w))) (path s) = files w (path s)
       \<and> params (fst (snd (params_setter cd wfl v s w))) = v
       \<and> loaded (fst (snd (params_setter cd wfl v s w)))"
proof -
  let ?s1 = "s\<lparr>params := v, loaded := True\<rparr>"
  obtain r w1 where ser: "serialize_sync cd wfl ?s1 w = (r, w1)"
    by (cases "serialize_sync cd wfl ?s1 w")
  with assms have r: "r = Inl e" by (simp add: params_setter_def Let_def)
  from ser r have "files w1 (path ?s1) = files w (path ?s1)"
    using serialize_sync_fail_files [of cd wfl ?s1 w e w1] by simp
  then show ?thesis using ser by (simp add: params_setter_def Let_def)
qed

theorem failed_set_window_witness:
  "fst (params_setter demo_codec fsync_fails (Some demo_R) demo_unloaded demo_with_file) = Inl OSError
   \<and> files (snd (snd (params_setter demo_codec fsync_fails (Some demo_R) demo_unloaded
        demo_with_file))) ''/uploads/abc.info'' = Some text_false
   \<and> params (fst (snd (params_setter demo_codec fsync_fails (Some demo_R) demo_unloaded
        demo_with_file))) = Some demo_R
   \<and> loaded (fst (snd (params_setter demo_codec fsync_fails (Some demo_R) demo_unloaded
        demo_with_file)))"
proof -
  have h: "fst (params_setter demo_codec fsync_fails (Some demo_R) demo_unloaded demo_with_file)
      = Inl OSError"
    by (simp add: model_defs demo_defs Let_def)
  have p: "path demo_unloaded = ''/uploads/abc.info''"
    by (simp add: path_def os_path_join_def demo_unloaded_def demo_file_def)
  have f: "files demo_with_file ''/uploads/abc.info'' = Some text_false"
    by (simp add: demo_with_file_def world_of_def)
  show ?thesis
    using h failed_set_window [OF h] by (simp add: p f)
qed

subsection \<open>C5: a load that raises is tried again\<close>

text \<open>
  C5. A first \<open>get()\<close> is meant to leave \<open>loaded\<close> true whatever it found. A store that
  is not loaded, its info file holding bytes that are no text: the getter raises before
  it sets \<open>loaded\<close>, which stays false, and the second call makes the same three
  filesystem calls again.
\<close>

theorem raising_get_is_retried:
  "fst (params_getter demo_codec undecodable demo_unloaded demo_undecodable_file)
     = Inl UnicodeDecodeError
   \<and> loaded (fst (snd (params_getter demo_codec undecodable demo_unloaded
        demo_undecodable_file))) = False
   \<and> calls (snd (snd (params_getter demo_codec undecodable demo_unloaded
        demo_undecodable_file)))
     = [Exists ''/uploads/abc.info'', OpenRead ''/uploads/abc.info'', ReadAll ''/uploads/abc.info'']
   \<and> calls (snd (snd (params_getter demo_codec undecodable
        (fst (snd (params_getter demo_codec undecodable demo_unloaded demo_undecodable_file)))
        (snd (snd (params_getter demo_codec undecodable demo_unloaded demo_undecodable_file))))))
     = [Exists ''/uploads/abc.info'', OpenRead ''/uploads/abc.info'', ReadAll ''/uploads/abc.info'',
        Exists ''/uploads/abc.info'', OpenRead ''/uploads/abc.info'', ReadAll ''/uploads/abc.info'']"
  by (simp add: model_defs demo_defs)

text \<open>
  A first call that returns does load once. After a \<open>get()\<close> or \<open>asyncGet()\<close> that
  returned, whatever it found, \<open>loaded\<close> is true, and every later sequence of \<open>get()\<close>
  and \<open>asyncGet()\<close> calls, whatever the filesystem holds by then and whatever faults it
  would show, returns the same value each time and leaves the store and the world, its
  trace of filesystem calls included, as they were.
\<close>

theorem load_is_cached:
  assumes "access cd a rfl s w = (Inr v, s1, w1)"
  shows "loaded s1 \<and> access_all cd cs s1 w2 = (replicate (length cs) (Inr v), s1, w2)"
  using access_returns [OF assms] by (simp add: access_all_loaded)

theorem load_is_cached_witness:
  "fst (access demo_codec Get no_read_faults demo_unloaded demo_with_file) = Inr (Some demo_R2)
   \<and> loaded (fst (snd (access demo_codec Get no_read_faults demo_unloaded demo_with_file)))
   \<and> access_all demo_codec [(Get, undecodable), (AsyncGet, read_denied)]
        (fst (snd (access demo_codec Get no_read_faults demo_unloaded demo_with_file)))
        demo_empty_dir
      = ([Inr (Some demo_R2), Inr (Some demo_R2)],
         fst (snd (access demo_codec Get no_read_faults demo_unloaded demo_with_file)),
         demo_empty_dir)"
proof -
  have h: "fst (access demo_codec Get no_read_faults demo_unloaded demo_with_file)
      = Inr (Some demo_R2)"
    by (simp add: model_defs demo_defs)
  then have e: "access demo_codec Get no_read_faults demo_unloaded demo_with_file
      = (Inr (Some demo_R2),
         fst (snd (access demo_codec Get no_read_faults demo_unloaded demo_with_file)),
         snd (snd (access demo_codec Get no_read_faults demo_unloaded demo_with_file)))"
    by (simp add: prod_eq_iff)
  show ?thesis
    using h load_is_cached [OF e, of "[(Get, undecodable), (AsyncGet, read_denied)]" demo_empty_dir]
    by simp
qed

subsection \<open>C6: blocking and non-blocking methods\<close>

text \<open>
  C6. For every store, world and faults, \<open>load_params\<close> gives the result, the store and
  the world that the \<open>params\<close> getter gives, \<open>update_params\<close> those of the \<open>params\<close>
  setter, and likewise \<open>deserialize\<close> and \<open>serialize\<close> those of their blocking twins.
\<close>

theorem blocking_nonblocking_equal:
  "load_params cd rfl s w = params_getter cd rfl s w
   \<and> update_params cd wfl v s w = params_setter cd wfl v s w
   \<and> deserialize cd rfl s w = deserialize_sync cd rfl s w
   \<and> serialize cd wfl s w = serialize_sync cd wfl s w"
  by (simp add: load_params_eq update_params_eq deserialize_eq serialize_eq)

theorem blocking_nonblocking_equal_witness:
  "load_params demo_codec no_read_faults demo_unloaded demo_with_file
     = params_getter demo_codec no_read_faults demo_unloaded demo_with_file
   \<and> fst (load_params demo_codec no_read_faults demo_unloaded demo_with_file) = Inr (Some demo_R2)
   \<and> update_params demo_codec no_write_faults (Some demo_R) demo_unloaded demo_with_file
     = params_setter demo_codec no_write_faults (Some demo_R) demo_unloaded demo_with_file
   \<and> files (snd (snd (update_params demo_codec no_write_faults (Some demo_R) demo_unloaded
        demo_with_file))) ''/uploads/abc.info'' = Some text_true"
proof -
  have g: "fst (params_getter demo_codec no_read_faults demo_unloaded demo_with_file)
      = Inr (Some demo_R2)"
    by (simp add: model_defs demo_defs)
  have s: "files (snd (snd (params_setter demo_codec no_write_faults (Some demo_R) demo_unloaded
        demo_with_file))) ''/uploads/abc.info'' = Some text_true"
    by (simp add: model_defs demo_defs Let_def)
  show ?thesis
    using g s
      blocking_nonblocking_equal [of demo_codec no_read_faults demo_unloaded demo_with_file
        no_write_faults "Some demo_R"]
    by simp
qed

subsection \<open>C7: the constructor creates the file\<close>

text \<open>
  C7. For every truthy record \<open>R\<close> and owner whose info file is absent: the constructor
  raises \<open>e\<close> exactly when the persist it runs raises \<open>e\<close>; when it returns, the store
  caches \<open>R\<close>, is loaded, and the file at the derived path holds the JSON text of \<open>R\<close>;
  and without faults it returns whenever \<open>R\<close> is serializable.
\<close>

theorem init_creates_file:
  assumes "params_truthy cd R" and "files w (path (fresh f (Some R))) = None"
  shows "(\<forall>e. fst (serialize_sync cd wfl (fresh f (Some R)) (traced (Exists (path (fresh f (Some R)))) w)) = Inl e
            \<longleftrightarrow> fst (init cd wfl f (Some R) w) = Inl e)
       \<and> (\<forall>s. fst (init cd wfl f (Some R) w) = Inr s \<longrightarrow>
             params s = Some R \<and> loaded s \<and> upload_file s = f
             \<and> (\<exists>txt. json_dumps cd (Some R) = Inr txt
                  \<and> files (snd (init cd wfl f (Some R) w)) (path s) = Some txt))
       \<and> (\<forall>txt. json_dumps cd (Some R) = Inr txt \<longrightarrow>
             fst (init cd no_write_faults f (Some R) w) = Inr (fresh f (Some R)))"
proof -
  let ?s = "fresh f (Some R)"
  let ?w0 = "traced (Exists (path ?s)) w"
  have i: "init cd wfl f (Some R) w =
      (case serialize_sync cd wfl ?s ?w0 of (Inl e, w1) \<Rightarrow> (Inl e, w1) | (Inr u, w1) \<Rightarrow> (Inr ?s, w1))" for wfl
    using assms by (simp add: init_unfold)
  obtain r w1 where ser: "serialize_sync cd wfl ?s ?w0 = (r, w1)"
    by (cases "serialize_sync cd wfl ?s ?w0")
  have a: "(\<forall>e. fst (serialize_sync cd wfl ?s ?w0) = Inl e \<longleftrightarrow> fst (init cd wfl f (Some R) w) = Inl e)"
    by (cases r) (simp_all add: i ser)
  have b: "\<forall>s. fst (init cd wfl f (Some R) w) = Inr s \<longrightarrow>
             params s = Some R \<and> loaded s \<and> upload_file s = f
             \<and> (\<exists>txt. json_dumps cd (Some R) = Inr txt
                  \<and> files (snd (init cd wfl f (Some R) w)) (path s) = Some txt)"
  proof (cases r)
    case (Inl e)
    then show ?thesis by (simp add: i ser)
  next
    case (Inr u)
    with ser serialize_sync_ok [of cd wfl ?s ?w0 u w1]
    obtain js where "json_dumps cd (params ?s) = Inr js" and "files w1 (path ?s) = Some js"
      by auto
    with Inr show ?thesis by (simp add: i ser) (simp add: fresh_def)
  qed
  have c: "\<forall>txt. json_dumps cd (Some R) = Inr txt \<longrightarrow>
             fst (init cd no_write_faults f (Some R) w) = Inr ?s"
  proof (intro allI impI)
    fix js assume d: "json_dumps cd (Some R) = Inr js"
    have "params ?s = Some R" by (simp add: fresh_def)
    with d have "fst (serialize_sync cd no_write_faults ?s ?w0) = Inr ()"
      by (simp add: serialize_sync_raises_body write_body_no_faults [of cd "Some R" js])
    then show "fst (init cd no_write_faults f (Some R) w) = Inr ?s"
      by (cases "serialize_sync cd no_write_faults ?s ?w0") (auto simp: i)
  qed
  from a b c show ?thesis by blast
qed

theorem init_creates_file_witness:
  "params_truthy demo_codec demo_R
   \<and> files demo_empty_dir (path (fresh demo_file (Some demo_R))) = None
   \<and> fst (init demo_codec no_write_faults demo_file (Some demo_R) demo_empty_dir) = Inr demo_loaded
   \<and> files (snd (init demo_codec no_write_faults demo_file (Some demo_R) demo_empty_dir))
        (path demo_loaded) = Some text_true
   \<and> fst (init demo_codec fsync_fails demo_file (Some demo_R) demo_empty_dir) = Inl OSError"
proof -
  have t: "params_truthy demo_codec demo_R" by (simp add: demo_codec_def)
  have f: "files demo_empty_dir (path (fresh demo_file (Some demo_R))) = None"
    by (simp add: demo_empty_dir_def world_of_def)
  have d: "json_dumps demo_codec (Some demo_R) = Inr text_true"
    by (simp add: demo_codec_def demo_dumps_def demo_R_def)
  have l: "fresh demo_file (Some demo_R) = demo_loaded"
    by (simp add: fresh_def demo_loaded_def)
  have s: "fst (serialize_sync demo_codec fsync_fails (fresh demo_file (Some demo_R))
      (traced (Exists (path (fresh demo_file (Some demo_R)))) demo_empty_dir)) = Inl OSError"
    by (simp add: model_defs demo_defs Let_def)
  from init_creates_file [OF t f, of no_write_faults] d
  have ok: "fst (init demo_codec no_write_faults demo_file (Some demo_R) demo_empty_dir)
      = Inr demo_loaded" by (simp add: l)
  with init_creates_file [OF t f, of no_write_faults] d
  have fl: "files (snd (init demo_codec no_write_faults demo_file (Some demo_R) demo_empty_dir))
        (path demo_loaded) = Some text_true" by auto
  from init_creates_file [OF t f, of fsync_fails] s
  have bad: "fst (init demo_codec fsync_fails demo_file (Some demo_R) demo_empty_dir) = Inl OSError"
    by blast
  from t f ok fl bad show ?thesis by simp
qed

subsection \<open>C8: the empty file\<close>

text \<open>
  C8. A store that caches \<open>demo_R\<close>, its info file holding only whitespace: both
  deserialize routines return null and leave the cached record in place, where every
  other branch that finds no record assigns null.
\<close>

theorem empty_file_keeps_cache:
  "files demo_blank_file ''/uploads/abc.info'' = Some '' \<newline>''
   \<and> fst (deserialize_sync demo_codec no_read_faults demo_loaded demo_blank_file) = Inr None
   \<and> params (fst (snd (deserialize_sync demo_codec no_read_faults demo_loaded demo_blank_file)))
       = Some demo_R
   \<and> fst (deserialize demo_codec no_read_faults demo_loaded demo_blank_file) = Inr None
   \<and> params (fst (snd (deserialize demo_codec no_read_faults demo_loaded demo_blank_file)))
       = Some demo_R"
  by (simp add: model_defs demo_defs)

subsection \<open>C9: the constructor keeps an existing file\<close>

text \<open>
  C9. When the info file exists, constructing a store with an initial record \<open>R\<close>
  returns the store caching \<open>R\<close>, loaded, and changes no file and logs nothing; its only
  filesystem call, if any, is the existence check.
\<close>

theorem init_keeps_existing_file:
  assumes "files w (path (fresh f (Some R))) \<noteq> None"
  shows "fst (init cd wfl f (Some R) w) = Inr \<lparr>upload_file = f, params = Some R, loaded = True\<rparr>
       \<and> files (snd (init cd wfl f (Some R) w)) = files w
       \<and> logged (snd (init cd wfl f (Some R) w)) = logged w
       \<and> (calls (snd (init cd wfl f (Some R) w)) = calls w
          \<or> calls (snd (init cd wfl f (Some R) w)) = calls w @ [Exists (path (fresh f (Some R)))])"
  using assms by (simp add: init_unfold traced_def) (simp add: fresh_def)

theorem init_keeps_existing_file_witness:
  "files demo_with_file (path (fresh demo_file (Some demo_R))) \<noteq> None
   \<and> fst (init demo_codec no_write_faults demo_file (Some demo_R) demo_with_file) = Inr demo_loaded
   \<and> files (snd (init demo_codec no_write_faults demo_file (Some demo_R) demo_with_file))
        ''/uploads/abc.info'' = Some text_false
   \<and> json_dumps demo_codec (params demo_loaded) = Inr text_true
   \<and> text_true \<noteq> text_false"
proof -
  have h: "files demo_with_file (path (fresh demo_file (Some demo_R))) \<noteq> None"
    by (simp add: path_fresh demo_with_file_def world_of_def demo_file_def os_path_join_def)
  show ?thesis
    using h init_keeps_existing_file [OF h, of demo_codec no_write_faults]
    by (simp add: path_fresh demo_file_def os_path_join_def demo_loaded_def demo_with_file_def world_of_def demo_codec_def demo_dumps_def
        demo_R_def text_true_def text_false_def)
qed

subsection \<open>C10: the accessor path can read the disk twice\<close>

text \<open>
  C10. The accessor path is meant to read the disk at most once over the lifetime of a
  store. A store that is not loaded, its info file holding bytes that are no text, and
  two calls of the getter: each raises, \<open>loaded\<close> is never set, and each call goes to
  the filesystem.
\<close>

theorem accessor_reads_twice:
  "accessor_disk_calls demo_codec [Call_params_getter undecodable, Call_params_getter undecodable]
     demo_unloaded demo_undecodable_file = 2
   \<and> calls (snd (run demo_codec [Call_params_getter undecodable, Call_params_getter undecodable]
        demo_unloaded demo_undecodable_file))
     = [Exists ''/uploads/abc.info'', OpenRead ''/uploads/abc.info'', ReadAll ''/uploads/abc.info'',
        Exists ''/uploads/abc.info'', OpenRead ''/uploads/abc.info'', ReadAll ''/uploads/abc.info'']"
  by (simp add: model_defs demo_defs)

text \<open>
  The flag itself never goes back. \<open>loaded\<close> is true after construction with an initial
  record, after every set, raising or not, and after every accessor call that returns;
  over every sequence of method calls, with any faults, a store that is loaded stays
  loaded, and from then on no accessor call touches the filesystem.
\<close>

theorem loaded_is_monotone:
  "(\<forall>s'. fst (init cd wfl f (Some R) w) = Inr s' \<longrightarrow> loaded s')
   \<and> loaded (fst (snd (params_setter cd wfl v s w)))
   \<and> loaded (fst (snd (update_params cd wfl v s w)))
   \<and> (\<forall>x. fst (access cd a rfl s w) = Inr x \<longrightarrow> loaded (fst (snd (access cd a rfl s w))))
   \<and> (loaded s \<longrightarrow> loaded (fst (run cd cs s w)) \<and> accessor_disk_calls cd cs s w = 0)"
proof -
  have i: "\<forall>s'. fst (init cd wfl f (Some R) w) = Inr s' \<longrightarrow> loaded s'"
    by (auto simp: init_unfold fresh_def split: if_splits prod.splits sum.splits)
  have st: "loaded (fst (snd (params_setter cd wfl v s w)))"
    by (simp add: params_setter_def Let_def split: prod.splits)
  have g: "\<forall>x. fst (access cd a rfl s w) = Inr x \<longrightarrow> loaded (fst (snd (access cd a rfl s w)))"
  proof (intro allI impI)
    fix x assume "fst (access cd a rfl s w) = Inr x"
    then have "access cd a rfl s w
        = (Inr x, fst (snd (access cd a rfl s w)), snd (snd (access cd a rfl s w)))"
      by (simp add: prod_eq_iff)
    then show "loaded (fst (snd (access cd a rfl s w)))"
      using access_returns by blast
  qed
  from i st g show ?thesis
    by (simp add: update_params_eq run_loaded accessor_disk_calls_loaded)
qed

theorem loaded_is_monotone_witness:
  "loaded demo_loaded
   \<and> loaded (fst (run demo_codec
        [Call_deserialize_sync undecodable, Call_params_setter fsync_fails None,
         Call_load_params read_denied] demo_loaded demo_with_file))
   \<and> accessor_disk_calls demo_codec
        [Call_deserialize_sync undecodable, Call_params_setter fsync_fails None,
         Call_load_params read_denied] demo_loaded demo_with_file = 0
   \<and> fst (access demo_codec Get no_read_faults demo_unloaded demo_with_file) = Inr (Some demo_R2)
   \<and> loaded (fst (snd (access demo_codec Get no_read_faults demo_unloaded demo_with_file)))
   \<and> fst (init demo_codec no_write_faults demo_file (Some demo_R) demo_with_file) = Inr demo_loaded"
proof -
  have l: "loaded demo_loaded" by (simp add: demo_loaded_def)
  have g: "fst (access demo_codec Get no_read_faults demo_unloaded demo_with_file)
      = Inr (Some demo_R2)"
    by (simp add: model_defs demo_defs)
  have i: "fst (init demo_codec no_write_faults demo_file (Some demo_R) demo_with_file)
      = Inr demo_loaded"
    by (simp add: model_defs demo_defs Let_def)
  note t = loaded_is_monotone [of demo_codec no_write_faults demo_file demo_R demo_with_file
        None demo_loaded Get no_read_faults
        "[Call_deserialize_sync undecodable, Call_params_setter fsync_fails None,
          Call_load_params read_denied]"]
  note u = loaded_is_monotone [of demo_codec no_write_faults demo_file demo_R demo_with_file
        None demo_unloaded Get no_read_faults "[]"]
  from t l have r: "loaded (fst (run demo_codec
        [Call_deserialize_sync undecodable, Call_params_setter fsync_fails None,
         Call_load_params read_denied] demo_loaded demo_with_file))
     \<and> accessor_disk_calls demo_codec
        [Call_deserialize_sync undecodable, Call_params_setter fsync_fails None,
         Call_load_params read_denied] demo_loaded demo_with_file = 0"
    by blast
  from u g have a: "loaded (fst (snd (access demo_codec Get no_read_faults demo_unloaded
      demo_with_file)))"
    by blast
  from l r g a i show ?thesis by blast
qed

end
